theory Spec2Isabelle
  imports Complex_Main "HOL-Library.Char_ord" "HOL-Library.List_Lexorder"
    "HOL-Library.Product_Lexorder" "HOL-Library.Multiset" "HOL-Library.Sublist"
    "HOL-Library.Word"
begin

section \<open>Values\<close>

text \<open>
  A calendar date is the triple (year, month, day) and a timestamp is a date with the
  seconds since midnight; both are compared lexicographically, which is the
  chronological order. \<open>.dt.date\<close> and \<open>.date()\<close> are the first projection.
\<close>

type_synonym data = "int \<times> nat \<times> nat"
type_synonym datahora = "data \<times> nat"

text \<open>
  A float64 cell of a pandas column: a finite number, an infinity or NaN. Finite
  arithmetic is exact here (rounding and the sign of zero are not modelled); the cases
  of the special values are those of IEEE 754, which numpy follows without raising.
\<close>

datatype flt = Fin real | PInf | NInf | NaN

fun flt_neg :: "flt \<Rightarrow> flt" where
  "flt_neg (Fin a) = Fin (- a)"
| "flt_neg PInf = NInf"
| "flt_neg NInf = PInf"
| "flt_neg NaN = NaN"

fun flt_add :: "flt \<Rightarrow> flt \<Rightarrow> flt" where
  "flt_add NaN _ = NaN"
| "flt_add _ NaN = NaN"
| "flt_add (Fin a) (Fin b) = Fin (a + b)"
| "flt_add PInf NInf = NaN"
| "flt_add NInf PInf = NaN"
| "flt_add PInf _ = PInf"
| "flt_add NInf _ = NInf"
| "flt_add (Fin a) PInf = PInf"
| "flt_add (Fin a) NInf = NInf"

definition flt_sub :: "flt \<Rightarrow> flt \<Rightarrow> flt" where
  "flt_sub x y = flt_add x (flt_neg y)"

definition flt_sinal :: "real \<Rightarrow> flt \<Rightarrow> flt" where
  "flt_sinal a x = (if a = 0 then NaN else if 0 < a then x else flt_neg x)"

fun flt_mul :: "flt \<Rightarrow> flt \<Rightarrow> flt" where
  "flt_mul NaN _ = NaN"
| "flt_mul _ NaN = NaN"
| "flt_mul (Fin a) (Fin b) = Fin (a * b)"
| "flt_mul (Fin a) PInf = flt_sinal a PInf"
| "flt_mul (Fin a) NInf = flt_sinal a NInf"
| "flt_mul PInf (Fin b) = flt_sinal b PInf"
| "flt_mul NInf (Fin b) = flt_sinal b NInf"
| "flt_mul PInf PInf = PInf"
| "flt_mul NInf NInf = PInf"
| "flt_mul PInf NInf = NInf"
| "flt_mul NInf PInf = NInf"

fun flt_div :: "flt \<Rightarrow> flt \<Rightarrow> flt" where
  "flt_div NaN _ = NaN"
| "flt_div _ NaN = NaN"
| "flt_div (Fin a) (Fin b) = (if b = 0 then flt_sinal a PInf else Fin (a / b))"
| "flt_div (Fin a) _ = Fin 0"
| "flt_div PInf (Fin b) = (if 0 \<le> b then PInf else NInf)"
| "flt_div NInf (Fin b) = (if 0 \<le> b then NInf else PInf)"
| "flt_div _ _ = NaN"

text \<open>\<open>Series.fillna(0)\<close>: NaN becomes 0, every other cell (an infinity too) stays.\<close>

fun fillna0 :: "flt \<Rightarrow> flt" where
  "fillna0 NaN = Fin 0"
| "fillna0 x = x"

text \<open>\<open>Series.sum()\<close> of a float column: NaN cells are skipped, the empty sum is 0.\<close>

definition soma_flt :: "flt list \<Rightarrow> flt" where
  "soma_flt xs = foldl flt_add (Fin 0) (filter (\<lambda>x. x \<noteq> NaN) xs)"

text \<open>
  An int64 cell of a pandas column: 64 bits read as a signed number. Addition wraps
  around, as numpy's does without raising; the order is that of the signed values.
\<close>

typedef int64 = "UNIV :: 64 word set"
  morphisms bits_of_int64 int64_of_bits ..

setup_lifting type_definition_int64

instantiation int64 :: comm_monoid_add
begin

lift_definition zero_int64 :: int64 is 0 .

lift_definition plus_int64 :: "int64 \<Rightarrow> int64 \<Rightarrow> int64" is "(+)" .

instance
  by standard (transfer, simp add: ac_simps)+

end

instantiation int64 :: linorder
begin

lift_definition less_eq_int64 :: "int64 \<Rightarrow> int64 \<Rightarrow> bool" is "\<lambda>a b. sint a \<le> sint b" .

lift_definition less_int64 :: "int64 \<Rightarrow> int64 \<Rightarrow> bool" is "\<lambda>a b. sint a < sint b" .

instance
  by standard (transfer, auto intro: signed_word_eqI)+

end

lift_definition int64_of_int :: "int \<Rightarrow> int64" is word_of_int .

lift_definition int_of_int64 :: "int64 \<Rightarrow> int" is sint .

datatype erro = TypeError | IndexError | KeyError

section \<open>The five tables\<close>

record fornecedor =
  f_id_fornecedor :: int
  f_nome_fornecedor :: string
  f_contato_fornecedor :: string
  f_email_fornecedor :: string
  f_telefone_fornecedor :: string

record produto =
  p_id_produto :: int
  p_nome_produto :: string
  p_categoria_produto :: string
  p_preco_custo :: real
  p_preco_venda_unitario :: real
  p_id_fornecedor :: int

record cliente =
  c_id_cliente :: int
  c_nome_cliente :: string
  c_email_cliente :: string
  c_telefone_cliente :: string
  c_endereco_cliente :: string
  c_cidade_cliente :: string
  c_estado_cliente :: string
  c_pais_cliente :: string
  c_regiao_cliente :: string
  c_data_cadastro :: data

record vendedor =
  vd_id_vendedor :: int
  vd_nome_vendedor :: string
  vd_email_vendedor :: string
  vd_matricula_vendedor :: string
  vd_equipe_vendas :: string

record venda =
  v_id_venda :: int
  v_id_produto :: int
  v_id_cliente :: int
  v_id_vendedor :: int
  v_data_venda :: datahora
  v_quantidade_vendida :: int
  v_valor_total_venda :: real
  v_metodo_pagamento :: string

section \<open>dashboard\_vendas\_projeto.py: loading and transformation\<close>

text \<open>
  The files beside the script: a file that is absent is \<open>None\<close>
  (\<open>pd.read_csv\<close> raises FileNotFoundError), a file that is present holds its rows.
\<close>

record arquivos =
  produtos_csv :: "produto list option"
  clientes_csv :: "cliente list option"
  vendedores_csv :: "vendedor list option"
  vendas_csv :: "venda list option"
  fornecedores_csv :: "fornecedor list option"

text \<open>
  \<open>load_data\<close> reads produtos.csv, clientes.csv, vendedores.csv and vendas.csv; the
  line reading fornecedores.csv is commented out in the source. A missing file makes the
  whole result \<open>None, None, None, None\<close>.
\<close>

definition load_data ::
  "arquivos \<Rightarrow> produto list option \<times> cliente list option \<times> vendedor list option \<times> venda list option"
where
  "load_data arq =
     (case produtos_csv arq of None \<Rightarrow> (None, None, None, None) | Some produtos_df \<Rightarrow>
      (case clientes_csv arq of None \<Rightarrow> (None, None, None, None) | Some clientes_df \<Rightarrow>
      (case vendedores_csv arq of None \<Rightarrow> (None, None, None, None) | Some vendedores_df \<Rightarrow>
      (case vendas_csv arq of None \<Rightarrow> (None, None, None, None) | Some vendas_df \<Rightarrow>
         (Some produtos_df, Some clientes_df, Some vendedores_df, Some vendas_df)))))"

text \<open>
  \<open>pd.merge(left, right, on=key, how='left')\<close>: the left rows in their order, each
  paired with every right row of the same key (in the right table's order), or once
  with null right columns when no right row has the key.
\<close>

definition merge_left ::
  "('a \<Rightarrow> int) \<Rightarrow> ('b \<Rightarrow> int) \<Rightarrow> 'a list \<Rightarrow> 'b list \<Rightarrow> ('a \<times> 'b option) list"
where
  "merge_left kl kr ls rs =
     concat (map (\<lambda>l. case filter (\<lambda>r. kr r = kl l) rs of
                          [] \<Rightarrow> [(l, None)]
                        | ms \<Rightarrow> map (\<lambda>r. (l, Some r)) ms) ls)"

text \<open>
  A row of \<open>df_merged\<close>: the sale, the product, customer and seller rows joined to it
  (\<open>None\<close>: all the columns that table contributes are null), and the calculated columns.
\<close>

record linha =
  l_venda :: venda
  l_produto :: "produto option"
  l_cliente :: "cliente option"
  l_vendedor :: "vendedor option"
  lucro_venda :: flt
  margem_lucro_percentual :: flt
  ano_mes_venda :: "int \<times> nat"
  ano_venda :: int

text \<open>The columns of \<open>df_merged\<close> the script reads, under their names in the source.\<close>

definition id_venda :: "linha \<Rightarrow> int" where
  "id_venda l = v_id_venda (l_venda l)"

definition data_venda :: "linha \<Rightarrow> datahora" where
  "data_venda l = v_data_venda (l_venda l)"

text \<open>
  The quantity column is an int64 column of the frame (the quantities of the file,
  whole numbers in the int64 range).
\<close>

definition quantidade_vendida :: "linha \<Rightarrow> int64" where
  "quantidade_vendida l = int64_of_int (v_quantidade_vendida (l_venda l))"

definition valor_total_venda :: "linha \<Rightarrow> real" where
  "valor_total_venda l = v_valor_total_venda (l_venda l)"

definition nome_produto :: "linha \<Rightarrow> string option" where
  "nome_produto l = map_option p_nome_produto (l_produto l)"

definition categoria_produto :: "linha \<Rightarrow> string option" where
  "categoria_produto l = map_option p_categoria_produto (l_produto l)"

definition nome_cliente :: "linha \<Rightarrow> string option" where
  "nome_cliente l = map_option c_nome_cliente (l_cliente l)"

definition regiao_cliente :: "linha \<Rightarrow> string option" where
  "regiao_cliente l = map_option c_regiao_cliente (l_cliente l)"

definition nome_vendedor :: "linha \<Rightarrow> string option" where
  "nome_vendedor l = map_option vd_nome_vendedor (l_vendedor l)"

definition col_preco_custo :: "produto option \<Rightarrow> flt" where
  "col_preco_custo p = (case p of None \<Rightarrow> NaN | Some x \<Rightarrow> Fin (p_preco_custo x))"

definition col_preco_venda_unitario :: "produto option \<Rightarrow> flt" where
  "col_preco_venda_unitario p = (case p of None \<Rightarrow> NaN | Some x \<Rightarrow> Fin (p_preco_venda_unitario x))"

text \<open>
  The calculated columns (lines 49 to 53 of the script):
  \<open>lucro_venda = (preco_venda_unitario - preco_custo) * quantidade_vendida\<close>,
  \<open>margem_lucro_percentual = (lucro_venda / valor_total_venda) * 100\<close> followed by
  \<open>fillna(0)\<close>, the month bucket and the year of the sale.
\<close>

definition calc_lucro_venda :: "venda \<Rightarrow> produto option \<Rightarrow> flt" where
  "calc_lucro_venda v p =
     flt_mul (flt_sub (col_preco_venda_unitario p) (col_preco_custo p))
             (Fin (of_int (v_quantidade_vendida v)))"

definition calc_margem :: "flt \<Rightarrow> real \<Rightarrow> flt" where
  "calc_margem lucro valor_total = fillna0 (flt_mul (flt_div lucro (Fin valor_total)) (Fin 100))"

definition derivar :: "((venda \<times> produto option) \<times> cliente option) \<times> vendedor option \<Rightarrow> linha" where
  "derivar r =
     (case r of (((v, p), c), vd) \<Rightarrow>
        \<lparr> l_venda = v, l_produto = p, l_cliente = c, l_vendedor = vd,
          lucro_venda = calc_lucro_venda v p,
          margem_lucro_percentual = calc_margem (calc_lucro_venda v p) (v_valor_total_venda v),
          ano_mes_venda = (fst (fst (v_data_venda v)), fst (snd (fst (v_data_venda v)))),
          ano_venda = fst (fst (v_data_venda v)) \<rparr>)"

definition df_merged :: "produto list \<Rightarrow> cliente list \<Rightarrow> vendedor list \<Rightarrow> venda list \<Rightarrow> linha list" where
  "df_merged produtos_df clientes_df vendedores_df vendas_df =
     (let m1 = merge_left v_id_produto p_id_produto vendas_df produtos_df;
          m2 = merge_left (\<lambda>r. v_id_cliente (fst r)) c_id_cliente m1 clientes_df;
          m3 = merge_left (\<lambda>r. v_id_vendedor (fst (fst r))) vd_id_vendedor m2 vendedores_df
      in map derivar m3)"

text \<open>
  The top of the script: \<open>st.stop()\<close> when \<open>produtos_df is None\<close> (the result
  \<open>None\<close> here), the merge when the four tables are there, an empty frame otherwise.
\<close>

definition transformar :: "arquivos \<Rightarrow> linha list option" where
  "transformar arq =
     (case load_data arq of
        (None, _) \<Rightarrow> None
      | (Some produtos_df, Some clientes_df, Some vendedores_df, Some vendas_df) \<Rightarrow>
          Some (df_merged produtos_df clientes_df vendedores_df vendas_df)
      | _ \<Rightarrow> Some [])"

section \<open>dashboard\_vendas\_projeto.py: the sidebar filters\<close>

text \<open>
  \<open>Series.unique().tolist()\<close>: the distinct cells in the order of their first
  appearance; a null cell (NaN) is one of them.
\<close>

definition unique :: "'a list \<Rightarrow> 'a list" where
  "unique xs = rev (remdups (rev xs))"

text \<open>
  Python's \<open>sorted\<close> on the cells of a text column, where a null cell is the float NaN:
  strings are put in ascending order; a list of NaN alone is returned as it is (no
  comparison of NaN raises); a list holding both a string and NaN raises TypeError,
  since \<open><\<close> is not supported between \<open>str\<close> and \<open>float\<close>.
\<close>

definition sorted_py :: "string option list \<Rightarrow> erro + string option list" where
  "sorted_py xs =
     (let ss = concat (map (\<lambda>x. case x of None \<Rightarrow> [] | Some s \<Rightarrow> [s]) xs)
      in if ss = [] then Inr xs
         else if length ss = length xs then Inr (map Some (sort ss))
         else Inl TypeError)"

text \<open>
  What \<open>st.sidebar.date_input\<close> hands back at line 70: a tuple of dates, a single date,
  or anything else.
\<close>

datatype valor_data = Tupla "data list" | Unica data | Outro

text \<open>
  The state of the sidebar widgets, which the user sets: the value of the period
  selector (line 70), of the single-date selector (line 87), the options chosen in the
  five multiselects, and today's date (line 95).
\<close>

record entrada =
  date_value_from_input :: valor_data
  data_unica :: data
  hoje :: data
  escolha_produtos :: "string option list"
  escolha_categorias :: "string option list"
  escolha_clientes :: "string option list"
  escolha_regioes :: "string option list"
  escolha_vendedores :: "string option list"

definition min_date :: "linha list \<Rightarrow> data" where
  "min_date df = fst (Min (set (map data_venda df)))"

definition max_date :: "linha list \<Rightarrow> data" where
  "max_date df = fst (Max (set (map data_venda df)))"

text \<open>Lines 69 to 96: the pair \<open>(start_date, end_date)\<close>.\<close>

definition periodo :: "entrada \<Rightarrow> linha list \<Rightarrow> data \<times> data" where
  "periodo e df =
     (if min_date df < max_date df then
        (case date_value_from_input e of
           Tupla [a, b] \<Rightarrow> (a, b)
         | Tupla _ \<Rightarrow> (min_date df, max_date df)
         | Unica d \<Rightarrow> (d, d)
         | Outro \<Rightarrow> (min_date df, max_date df))
      else if min_date df = max_date df then (data_unica e, data_unica e)
      else (hoje e, hoje e))"

text \<open>
  Lines 99 to 124, once per dimension: the sorted distinct cells of the column, and the
  user's selection replaced by all of them when it holds the sentinel
  (\<open>'Todos'\<close> or \<open>'Todas'\<close>).
\<close>

definition opcoes :: "(linha \<Rightarrow> string option) \<Rightarrow> linha list \<Rightarrow> erro + string option list" where
  "opcoes col df = sorted_py (unique (map col df))"

definition selecionados :: "string \<Rightarrow> string option list \<Rightarrow> string option list \<Rightarrow> string option list" where
  "selecionados sentinela todos escolha = (if Some sentinela \<in> set escolha then todos else escolha)"

text \<open>
  Lines 127 to 135: the boolean mask. \<open>isin\<close> is membership in the selected list, and a
  null cell is a member when the list holds NaN.
\<close>

definition mascara ::
  "data \<times> data \<Rightarrow> string option list \<Rightarrow> string option list \<Rightarrow> string option list \<Rightarrow>
   string option list \<Rightarrow> string option list \<Rightarrow> linha \<Rightarrow> bool"
where
  "mascara per selected_products selected_categories selected_clients
       selected_client_regions selected_sellers l =
     (fst per \<le> fst (data_venda l) \<and>
      fst (data_venda l) \<le> snd per \<and>
      nome_produto l \<in> set selected_products \<and>
      categoria_produto l \<in> set selected_categories \<and>
      nome_cliente l \<in> set selected_clients \<and>
      regiao_cliente l \<in> set selected_client_regions \<and>
      nome_vendedor l \<in> set selected_sellers)"

text \<open>
  Lines 64 to 138: \<open>df_filtered\<close>, or the exception that stops the script. With an
  empty \<open>df_merged\<close> no filter is applied.
\<close>

definition df_filtered :: "entrada \<Rightarrow> linha list \<Rightarrow> erro + linha list" where
  "df_filtered e df =
     (if df \<noteq> [] then
        (case opcoes nome_produto df of Inl x \<Rightarrow> Inl x | Inr all_products \<Rightarrow>
        (case opcoes categoria_produto df of Inl x \<Rightarrow> Inl x | Inr all_categories \<Rightarrow>
        (case opcoes nome_cliente df of Inl x \<Rightarrow> Inl x | Inr all_clients \<Rightarrow>
        (case opcoes regiao_cliente df of Inl x \<Rightarrow> Inl x | Inr all_client_regions \<Rightarrow>
        (case opcoes nome_vendedor df of Inl x \<Rightarrow> Inl x | Inr all_sellers \<Rightarrow>
           Inr (filter
                 (mascara (periodo e df)
                    (selecionados ''Todos'' all_products (escolha_produtos e))
                    (selecionados ''Todas'' all_categories (escolha_categorias e))
                    (selecionados ''Todos'' all_clients (escolha_clientes e))
                    (selecionados ''Todas'' all_client_regions (escolha_regioes e))
                    (selecionados ''Todos'' all_sellers (escolha_vendedores e)))
                 df))))))
      else Inr df)"

section \<open>dashboard\_vendas\_projeto.py: the aggregates\<close>

text \<open>
  Lines 147 to 150. \<open>nunique\<close> counts the distinct sale ids; the average ticket is
  \<open>total_vendas_valor / num_transacoes if num_transacoes > 0 else 0\<close>.
\<close>

record kpi =
  total_vendas_valor :: real
  total_lucro_valor :: flt
  num_transacoes :: nat
  ticket_medio :: real

definition kpis :: "linha list \<Rightarrow> kpi" where
  "kpis df =
     (let total = sum_list (map valor_total_venda df);
          n = length (remdups (map id_venda df))
      in \<lparr> total_vendas_valor = total,
           total_lucro_valor = soma_flt (map lucro_venda df),
           num_transacoes = n,
           ticket_medio = (if 0 < n then total / real n else 0) \<rparr>)"


text \<open>
  \<open>df.groupby(col)[metric].sum()\<close>: one entry per distinct non-null cell of the
  column (rows whose cell is null are left out), in ascending order of the cell, with
  the sum of the metric over the rows of that group.
\<close>

definition chaves :: "(linha \<Rightarrow> string option) \<Rightarrow> linha list \<Rightarrow> string list" where
  "chaves col df = sort (remdups (concat (map (\<lambda>l. case col l of None \<Rightarrow> [] | Some k \<Rightarrow> [k]) df)))"

definition soma_grupo ::
  "(linha \<Rightarrow> string option) \<Rightarrow> (linha \<Rightarrow> 'm::comm_monoid_add) \<Rightarrow> linha list \<Rightarrow> string \<Rightarrow> 'm"
where
  "soma_grupo col metric df k = sum_list (map metric (filter (\<lambda>l. col l = Some k) df))"

definition groupby_sum ::
  "(linha \<Rightarrow> string option) \<Rightarrow> (linha \<Rightarrow> 'm::comm_monoid_add) \<Rightarrow> linha list \<Rightarrow> (string \<times> 'm) list"
where
  "groupby_sum col metric df = map (\<lambda>k. (k, soma_grupo col metric df k)) (chaves col df)"

text \<open>
  A stable sort in descending order of the value: entries of equal value keep the order
  they have in the list.
\<close>

fun inserir_desc :: "'k \<times> 'm::linorder \<Rightarrow> ('k \<times> 'm) list \<Rightarrow> ('k \<times> 'm) list" where
  "inserir_desc x [] = [x]"
| "inserir_desc x (y # ys) = (if snd y < snd x then x # y # ys else y # inserir_desc x ys)"

definition ordenar_desc :: "('k \<times> 'm::linorder) list \<Rightarrow> ('k \<times> 'm) list" where
  "ordenar_desc xs = foldl (\<lambda>acc x. inserir_desc x acc) [] xs"

text \<open>
  \<open>Series.sort_values(ascending=False)\<close> with its default \<open>kind='quicksort'\<close>: the
  entries in descending order of the value. That sort is not stable, so entries of equal
  value may come out in any order; which one is the parameter \<open>instavel\<close>: entries of
  equal value come out in ascending order of \<open>instavel\<close>.
\<close>

definition sort_values_desc :: "('k \<times> 'm \<Rightarrow> nat) \<Rightarrow> ('k \<times> 'm::linorder) list \<Rightarrow> ('k \<times> 'm) list" where
  "sort_values_desc instavel s = ordenar_desc (sort_key instavel s)"

text \<open>
  \<open>Series.nlargest(n)\<close> with the default \<open>keep='first'\<close>. When n is at least the
  length of the series, pandas returns \<open>sort_values(ascending=False).head(n)\<close>. Otherwise
  it returns the n largest entries in descending order of the value, entries of equal
  value in the order they have in the series (a stable merge sort).
\<close>

definition nlargest :: "('k \<times> 'm \<Rightarrow> nat) \<Rightarrow> nat \<Rightarrow> ('k \<times> 'm::linorder) list \<Rightarrow> ('k \<times> 'm) list" where
  "nlargest instavel n s =
     (if length s \<le> n then take n (sort_values_desc instavel s) else take n (ordenar_desc s))"

text \<open>
  Lines 172, 200, 204 and 217: the Top-N of a dimension by a metric. The sum of the
  value is a float sum, the sum of the quantity an int64 sum.
\<close>

definition top_n ::
  "(string \<times> 'm \<Rightarrow> nat) \<Rightarrow> (linha \<Rightarrow> string option) \<Rightarrow> (linha \<Rightarrow> 'm::{comm_monoid_add,linorder}) \<Rightarrow>
   nat \<Rightarrow> linha list \<Rightarrow> (string \<times> 'm) list"
where
  "top_n instavel col metric n df = nlargest instavel n (groupby_sum col metric df)"


datatype tipo_analise = Valor_de_Venda | Quantidade_Vendida

definition df_top_produtos ::
  "(string \<times> real \<Rightarrow> nat) \<Rightarrow> (string \<times> int64 \<Rightarrow> nat) \<Rightarrow> tipo_analise \<Rightarrow> nat \<Rightarrow> linha list \<Rightarrow>
   (string \<times> real) list + (string \<times> int64) list"
where
  "df_top_produtos instavel_valor instavel_quantidade tipo_analise_produto top_n_produtos df =
     (if tipo_analise_produto = Valor_de_Venda
      then Inl (top_n instavel_valor nome_produto valor_total_venda top_n_produtos df)
      else Inr (top_n instavel_quantidade nome_produto quantidade_vendida top_n_produtos df))"

definition df_top_clientes :: "(string \<times> real \<Rightarrow> nat) \<Rightarrow> nat \<Rightarrow> linha list \<Rightarrow> (string \<times> real) list" where
  "df_top_clientes instavel top_n_clientes df =
     top_n instavel nome_cliente valor_total_venda top_n_clientes df"



section \<open>gerar\_arquivos\_csv\_vendas.py: the generator\<close>

text \<open>
  The script draws from Faker and from the module \<open>random\<close>. Their results are an
  input here: each call site of the script, at iteration \<open>i\<close> of its loop, reads the
  value the source of randomness has for it. \<open>random_random\<close> is the \<open>random()\<close>
  under \<open>random.uniform\<close>; \<open>random_below\<close> is the raw natural number under
  \<open>random.choice\<close> and \<open>random.randint\<close>, reduced below the size of the range.
\<close>

record fonte =
  fake_str :: "string \<Rightarrow> int \<Rightarrow> string"
  fake_date_between :: "int \<Rightarrow> data"
  fake_date_time_between :: "int \<Rightarrow> datahora"
  fake_random_number :: "int \<Rightarrow> nat"
  random_random :: "string \<Rightarrow> int \<Rightarrow> real"
  random_below :: "string \<Rightarrow> int \<Rightarrow> nat"

text \<open>\<open>random.choice(seq)\<close> raises IndexError on an empty sequence.\<close>

definition choice :: "'a list \<Rightarrow> nat \<Rightarrow> erro + 'a" where
  "choice xs r = (if xs = [] then Inl IndexError else Inr (xs ! (r mod length xs)))"

definition randint :: "int \<Rightarrow> int \<Rightarrow> nat \<Rightarrow> int" where
  "randint a b r = a + int (r mod nat (b - a + 1))"

definition uniform :: "real \<Rightarrow> real \<Rightarrow> real \<Rightarrow> real" where
  "uniform a b u = a + (b - a) * u"

text \<open>
  \<open>round(x, 2)\<close>: the nearest multiple of 0.01, a tie going to the even one (the
  binary representation error of a float is not modelled).
\<close>

definition round_py2 :: "real \<Rightarrow> real" where
  "round_py2 x =
     (let y = x * 100; f = \<lfloor>y\<rfloor>; d = y - of_int f
      in (if d < 1 / 2 then of_int f
          else if 1 / 2 < d then of_int (f + 1)
          else if even f then of_int f else of_int (f + 1)) / 100)"

text \<open>\<open>str.capitalize()\<close> on ASCII letters; other bytes are left as they are.\<close>

definition upper_ascii :: "char \<Rightarrow> char" where
  "upper_ascii c = (let n = (of_char c :: nat) in if 97 \<le> n \<and> n \<le> 122 then char_of (n - 32) else c)"

definition lower_ascii :: "char \<Rightarrow> char" where
  "lower_ascii c = (let n = (of_char c :: nat) in if 65 \<le> n \<and> n \<le> 90 then char_of (n + 32) else c)"

fun capitalize :: "string \<Rightarrow> string" where
  "capitalize [] = []"
| "capitalize (c # cs) = upper_ascii c # map lower_ascii cs"

text \<open>The decimal digits of a natural number, as an f-string prints it.\<close>

fun str_nat :: "nat \<Rightarrow> string" where
  "str_nat n =
     (if n < 10 then [''0123456789'' ! n]
      else str_nat (n div 10) @ [''0123456789'' ! (n mod 10)])"

declare str_nat.simps [simp del]

text \<open>
  A \<open>for\<close> loop that appends one record per index, stopped by the first exception.
\<close>

primrec para_cada :: "('a \<Rightarrow> erro + 'b) \<Rightarrow> 'a list \<Rightarrow> erro + 'b list" where
  "para_cada f [] = Inr []"
| "para_cada f (x # xs) =
     (case f x of
        Inl e \<Rightarrow> Inl e
      | Inr y \<Rightarrow> (case para_cada f xs of Inl e \<Rightarrow> Inl e | Inr ys \<Rightarrow> Inr (y # ys)))"

definition NUM_FORNECEDORES :: int where "NUM_FORNECEDORES = 10"
definition NUM_PRODUTOS :: int where "NUM_PRODUTOS = 50"
definition NUM_CLIENTES :: int where "NUM_CLIENTES = 200"
definition NUM_VENDEDORES :: int where "NUM_VENDEDORES = 20"
definition NUM_VENDAS :: int where "NUM_VENDAS = 1000"

text \<open>The lists of categories; accented letters are written without the accent.\<close>

definition categorias_produto :: "string list" where
  "categorias_produto =
     [''Eletronicos'', ''Livros'', ''Roupas'', ''Alimentos'', ''Moveis'', ''Brinquedos'', ''Esportes'']"

definition regioes_cliente :: "string list" where
  "regioes_cliente = [''Norte'', ''Nordeste'', ''Centro-Oeste'', ''Sudeste'', ''Sul'']"

definition equipes_vendas :: "string list" where
  "equipes_vendas = [''Equipe Alpha'', ''Equipe Beta'', ''Equipe Gamma'', ''Equipe Delta'']"

definition metodos_pagamento :: "string list" where
  "metodos_pagamento =
     [''Cartao de Credito'', ''Boleto Bancario'', ''PIX'', ''Debito Online'', ''Transferencia Bancaria'']"

text \<open>Lines 28 to 37.\<close>

definition gerar_fornecedor :: "fonte \<Rightarrow> int \<Rightarrow> fornecedor" where
  "gerar_fornecedor fo i =
     \<lparr> f_id_fornecedor = i,
       f_nome_fornecedor = fake_str fo ''company'' i,
       f_contato_fornecedor = fake_str fo ''name'' i,
       f_email_fornecedor = fake_str fo ''email'' i,
       f_telefone_fornecedor = fake_str fo ''phone_number'' i \<rparr>"

definition fornecedores_data :: "fonte \<Rightarrow> int \<Rightarrow> fornecedor list" where
  "fornecedores_data fo n = map (gerar_fornecedor fo) [1..n]"

text \<open>Lines 40 to 55.\<close>

definition gerar_produto :: "fonte \<Rightarrow> int list \<Rightarrow> int \<Rightarrow> erro + produto" where
  "gerar_produto fo fornecedor_ids i =
     (let custo = round_py2 (uniform 5 500 (random_random fo ''custo'' i));
          preco_venda = round_py2 (custo * uniform (12 / 10) (25 / 10) (random_random fo ''preco_venda'' i))
      in case choice categorias_produto (random_below fo ''categoria_produto'' i) of
           Inl e \<Rightarrow> Inl e
         | Inr categoria \<Rightarrow>
        (case choice fornecedor_ids (random_below fo ''id_fornecedor'' i) of
           Inl e \<Rightarrow> Inl e
         | Inr id_forn \<Rightarrow>
             Inr \<lparr> p_id_produto = i,
                   p_nome_produto = capitalize (fake_str fo ''word1'' i) @ '' '' @ capitalize (fake_str fo ''word2'' i),
                   p_categoria_produto = categoria,
                   p_preco_custo = custo,
                   p_preco_venda_unitario = preco_venda,
                   p_id_fornecedor = id_forn \<rparr>))"

definition produtos_data :: "fonte \<Rightarrow> int list \<Rightarrow> int \<Rightarrow> erro + produto list" where
  "produtos_data fo fornecedor_ids n = para_cada (gerar_produto fo fornecedor_ids) [1..n]"

text \<open>Lines 58 to 73.\<close>

definition gerar_cliente :: "fonte \<Rightarrow> int \<Rightarrow> erro + cliente" where
  "gerar_cliente fo i =
     (case choice regioes_cliente (random_below fo ''regiao_cliente'' i) of
        Inl e \<Rightarrow> Inl e
      | Inr regiao \<Rightarrow>
          Inr \<lparr> c_id_cliente = i,
                c_nome_cliente = fake_str fo ''name_cliente'' i,
                c_email_cliente = fake_str fo ''email_cliente'' i,
                c_telefone_cliente = fake_str fo ''phone_number_cliente'' i,
                c_endereco_cliente = fake_str fo ''street_address'' i,
                c_cidade_cliente = fake_str fo ''city'' i,
                c_estado_cliente = fake_str fo ''state_abbr'' i,
                c_pais_cliente = ''Brasil'',
                c_regiao_cliente = regiao,
                c_data_cadastro = fake_date_between fo i \<rparr>)"

definition clientes_data :: "fonte \<Rightarrow> int \<Rightarrow> erro + cliente list" where
  "clientes_data fo n = para_cada (gerar_cliente fo) [1..n]"

text \<open>Lines 76 to 86.\<close>

definition gerar_vendedor :: "fonte \<Rightarrow> int \<Rightarrow> erro + vendedor" where
  "gerar_vendedor fo i =
     (case choice equipes_vendas (random_below fo ''equipe_vendas'' i) of
        Inl e \<Rightarrow> Inl e
      | Inr equipe \<Rightarrow>
          Inr \<lparr> vd_id_vendedor = i,
                vd_nome_vendedor = fake_str fo ''name_vendedor'' i,
                vd_email_vendedor = fake_str fo ''email_vendedor'' i,
                vd_matricula_vendedor = ''V'' @ str_nat (fake_random_number fo i),
                vd_equipe_vendas = equipe \<rparr>)"

definition vendedores_data :: "fonte \<Rightarrow> int \<Rightarrow> erro + vendedor list" where
  "vendedores_data fo n = para_cada (gerar_vendedor fo) [1..n]"

text \<open>
  Line 96: the dictionary from product id to unit sale price; a later row of the same id
  replaces an earlier one. Line 101 raises KeyError for an id that is not a key.
\<close>

definition precos_produtos :: "produto list \<Rightarrow> (int \<rightharpoonup> real)" where
  "precos_produtos ps = fold (\<lambda>p m. m(p_id_produto p \<mapsto> p_preco_venda_unitario p)) ps Map.empty"

text \<open>Lines 98 to 116.\<close>

definition gerar_venda :: "fonte \<Rightarrow> produto list \<Rightarrow> int list \<Rightarrow> int list \<Rightarrow> int list \<Rightarrow> int \<Rightarrow> erro + venda" where
  "gerar_venda fo produtos produto_ids cliente_ids vendedor_ids i =
     (case choice produto_ids (random_below fo ''id_produto'' i) of
        Inl e \<Rightarrow> Inl e
      | Inr id_prod \<Rightarrow>
     (let quantidade = randint 1 10 (random_below fo ''quantidade'' i) in
      case precos_produtos produtos id_prod of
        None \<Rightarrow> Inl KeyError
      | Some preco_unitario_prod \<Rightarrow>
     (let valor_total = round_py2 (preco_unitario_prod * of_int quantidade);
          data_venda = fake_date_time_between fo i in
      case choice cliente_ids (random_below fo ''id_cliente'' i) of
        Inl e \<Rightarrow> Inl e
      | Inr id_cli \<Rightarrow>
     (case choice vendedor_ids (random_below fo ''id_vendedor'' i) of
        Inl e \<Rightarrow> Inl e
      | Inr id_vend \<Rightarrow>
     (case choice metodos_pagamento (random_below fo ''metodo_pagamento'' i) of
        Inl e \<Rightarrow> Inl e
      | Inr metodo \<Rightarrow>
          Inr \<lparr> v_id_venda = i,
                v_id_produto = id_prod,
                v_id_cliente = id_cli,
                v_id_vendedor = id_vend,
                v_data_venda = data_venda,
                v_quantidade_vendida = quantidade,
                v_valor_total_venda = valor_total,
                v_metodo_pagamento = metodo \<rparr>)))))"

definition vendas_data :: "fonte \<Rightarrow> produto list \<Rightarrow> cliente list \<Rightarrow> vendedor list \<Rightarrow> int \<Rightarrow> erro + venda list" where
  "vendas_data fo produtos clientes vendedores n =
     para_cada (gerar_venda fo produtos (map p_id_produto produtos) (map c_id_cliente clientes)
                  (map vd_id_vendedor vendedores)) [1..n]"

record tabelas =
  fornecedores_df :: "fornecedor list"
  produtos_df :: "produto list"
  clientes_df :: "cliente list"
  vendedores_df :: "vendedor list"
  vendas_df :: "venda list"

text \<open>
  The whole script for given counts: the five tables it writes, or the exception that
  stops it.
\<close>

definition gerar :: "int \<Rightarrow> int \<Rightarrow> int \<Rightarrow> int \<Rightarrow> int \<Rightarrow> fonte \<Rightarrow> erro + tabelas" where
  "gerar num_fornecedores num_produtos num_clientes num_vendedores num_vendas fo =
     (let fornecedores = fornecedores_data fo num_fornecedores in
      case produtos_data fo (map f_id_fornecedor fornecedores) num_produtos of
        Inl e \<Rightarrow> Inl e
      | Inr produtos \<Rightarrow>
     (case clientes_data fo num_clientes of
        Inl e \<Rightarrow> Inl e
      | Inr clientes \<Rightarrow>
     (case vendedores_data fo num_vendedores of
        Inl e \<Rightarrow> Inl e
      | Inr vendedores \<Rightarrow>
     (case vendas_data fo produtos clientes vendedores num_vendas of
        Inl e \<Rightarrow> Inl e
      | Inr vendas \<Rightarrow>
          Inr \<lparr> fornecedores_df = fornecedores, produtos_df = produtos, clientes_df = clientes,
                vendedores_df = vendedores, vendas_df = vendas \<rparr>))))"

text \<open>The script as it is configured (lines 21 to 25).\<close>

definition gerar_arquivos_csv_vendas :: "fonte \<Rightarrow> erro + tabelas" where
  "gerar_arquivos_csv_vendas fo =
     gerar NUM_FORNECEDORES NUM_PRODUTOS NUM_CLIENTES NUM_VENDEDORES NUM_VENDAS fo"

section \<open>Example inputs\<close>

text \<open>
  A source of randomness, and the tables the generator makes from it with one supplier,
  two products, one customer, one seller and two sales.
\<close>

definition fonte_exemplo :: fonte where
  "fonte_exemplo =
     \<lparr> fake_str = (\<lambda>_ _. ''abc''),
       fake_date_between = (\<lambda>_. (2024, 1, 15)),
       fake_date_time_between = (\<lambda>i. ((2024, 6, nat i), 3600)),
       fake_random_number = (\<lambda>_. 42),
       random_random = (\<lambda>_ _. 1 / 2),
       random_below = (\<lambda>_ i. nat i) \<rparr>"

definition tabelas_exemplo :: tabelas where
  "tabelas_exemplo =
     \<lparr> fornecedores_df =
         [\<lparr> f_id_fornecedor = 1, f_nome_fornecedor = ''abc'', f_contato_fornecedor = ''abc'',
            f_email_fornecedor = ''abc'', f_telefone_fornecedor = ''abc'' \<rparr>],
       produtos_df =
         [\<lparr> p_id_produto = 1, p_nome_produto = ''Abc Abc'', p_categoria_produto = ''Livros'',
            p_preco_custo = 505 / 2, p_preco_venda_unitario = 46712 / 100, p_id_fornecedor = 1 \<rparr>,
          \<lparr> p_id_produto = 2, p_nome_produto = ''Abc Abc'', p_categoria_produto = ''Roupas'',
            p_preco_custo = 505 / 2, p_preco_venda_unitario = 46712 / 100, p_id_fornecedor = 1 \<rparr>],
       clientes_df =
         [\<lparr> c_id_cliente = 1, c_nome_cliente = ''abc'', c_email_cliente = ''abc'',
            c_telefone_cliente = ''abc'', c_endereco_cliente = ''abc'', c_cidade_cliente = ''abc'',
            c_estado_cliente = ''abc'', c_pais_cliente = ''Brasil'', c_regiao_cliente = ''Nordeste'',
            c_data_cadastro = (2024, 1, 15) \<rparr>],
       vendedores_df =
         [\<lparr> vd_id_vendedor = 1, vd_nome_vendedor = ''abc'', vd_email_vendedor = ''abc'',
            vd_matricula_vendedor = ''V42'', vd_equipe_vendas = ''Equipe Beta'' \<rparr>],
       vendas_df =
         [\<lparr> v_id_venda = 1, v_id_produto = 2, v_id_cliente = 1, v_id_vendedor = 1,
            v_data_venda = ((2024, 6, 1), 3600), v_quantidade_vendida = 2,
            v_valor_total_venda = 93424 / 100, v_metodo_pagamento = ''Boleto Bancario'' \<rparr>,
          \<lparr> v_id_venda = 2, v_id_produto = 1, v_id_cliente = 1, v_id_vendedor = 1,
            v_data_venda = ((2024, 6, 2), 3600), v_quantidade_vendida = 3,
            v_valor_total_venda = 140136 / 100, v_metodo_pagamento = ''PIX'' \<rparr>] \<rparr>"

text \<open>
  Tables for the dashboard: one product, one customer, four sellers, and sales built
  from their id, product id, seller id, day of June 2024, quantity and total value.
  \<open>df_exemplo\<close> has four sales, one per seller; \<open>df_valor_zero\<close> has one sale whose
  total value is 0; \<open>df_sem_produto\<close> has a sale whose product id 99 is not in the
  products table. \<open>entrada_todos\<close> is the sidebar as it starts: the whole period and the
  sentinel in every multiselect.
\<close>

definition produto_ex :: produto where
  "produto_ex =
     \<lparr> p_id_produto = 1, p_nome_produto = ''Caneta'', p_categoria_produto = ''Livros'',
       p_preco_custo = 5, p_preco_venda_unitario = 10, p_id_fornecedor = 1 \<rparr>"

definition cliente_ex :: cliente where
  "cliente_ex =
     \<lparr> c_id_cliente = 1, c_nome_cliente = ''Rita'', c_email_cliente = ''rita@example.org'',
       c_telefone_cliente = ''1'', c_endereco_cliente = ''Rua A'', c_cidade_cliente = ''Natal'',
       c_estado_cliente = ''RN'', c_pais_cliente = ''Brasil'', c_regiao_cliente = ''Nordeste'',
       c_data_cadastro = (2023, 1, 15) \<rparr>"

definition vendedor_ex :: "int \<Rightarrow> string \<Rightarrow> vendedor" where
  "vendedor_ex i nome =
     \<lparr> vd_id_vendedor = i, vd_nome_vendedor = nome, vd_email_vendedor = ''v@example.org'',
       vd_matricula_vendedor = ''V1'', vd_equipe_vendas = ''Equipe Alpha'' \<rparr>"

definition vendedores_ex :: "vendedor list" where
  "vendedores_ex = [vendedor_ex 1 ''Zed'', vendedor_ex 2 ''Ana'', vendedor_ex 3 ''Bob'', vendedor_ex 4 ''Cid'']"

definition venda_ex :: "int \<Rightarrow> int \<Rightarrow> int \<Rightarrow> nat \<Rightarrow> int \<Rightarrow> real \<Rightarrow> venda" where
  "venda_ex i id_prod id_vend dia quantidade valor =
     \<lparr> v_id_venda = i, v_id_produto = id_prod, v_id_cliente = 1, v_id_vendedor = id_vend,
       v_data_venda = ((2024, 6, dia), 0), v_quantidade_vendida = quantidade,
       v_valor_total_venda = valor, v_metodo_pagamento = ''PIX'' \<rparr>"

definition df_exemplo :: "linha list" where
  "df_exemplo =
     df_merged [produto_ex] [cliente_ex] vendedores_ex
       [venda_ex 1 1 1 1 1 10, venda_ex 2 1 2 2 1 10, venda_ex 3 1 3 3 2 20, venda_ex 4 1 4 4 3 30]"

definition df_valor_zero :: "linha list" where
  "df_valor_zero = df_merged [produto_ex] [cliente_ex] vendedores_ex [venda_ex 1 1 1 1 1 0]"

definition df_sem_produto :: "linha list" where
  "df_sem_produto =
     df_merged [produto_ex] [cliente_ex] vendedores_ex [venda_ex 1 1 1 1 1 10, venda_ex 2 99 2 2 1 10]"

definition entrada_todos :: "linha list \<Rightarrow> entrada" where
  "entrada_todos df =
     \<lparr> date_value_from_input = Tupla [min_date df, max_date df],
       data_unica = min_date df,
       hoje = (2024, 7, 1),
       escolha_produtos = [Some ''Todos''],
       escolha_categorias = [Some ''Todas''],
       escolha_clientes = [Some ''Todos''],
       escolha_regioes = [Some ''Todas''],
       escolha_vendedores = [Some ''Todos''] \<rparr>"

definition arquivos_ex :: arquivos where
  "arquivos_ex =
     \<lparr> produtos_csv = Some [produto_ex], clientes_csv = Some [cliente_ex],
       vendedores_csv = Some vendedores_ex, vendas_csv = Some [venda_ex 1 1 1 1 1 10],
       fornecedores_csv = None \<rparr>"

definition entrada_ana :: entrada where
  "entrada_ana = (entrada_todos df_exemplo)\<lparr>escolha_vendedores := [Some ''Ana'']\<rparr>"

text \<open>
  \<open>df_ranking\<close> has six sales: two of seller Zed (4 and 6), one each of Ana (10), Bob
  (20) and Cid (30), and one of 50 whose seller id 9 is not in the sellers table.
\<close>

definition df_ranking :: "linha list" where
  "df_ranking =
     df_merged [produto_ex] [cliente_ex] vendedores_ex
       [venda_ex 1 1 1 1 1 4, venda_ex 2 1 2 2 1 10, venda_ex 3 1 3 3 2 20, venda_ex 4 1 4 4 3 30,
        venda_ex 5 1 1 5 1 6, venda_ex 6 1 9 6 1 50]"

text \<open>
  Two choices of the unstable sort among entries of equal value: the order of the
  series, and seller Zed before the others.
\<close>

definition ordem_da_serie :: "string \<times> 'm \<Rightarrow> nat" where
  "ordem_da_serie x = 0"

definition zed_primeiro :: "string \<times> 'm \<Rightarrow> nat" where
  "zed_primeiro x = (if fst x = ''Zed'' then 0 else 1)"

section \<open>Properties of the generator\<close>

subsection \<open>Loops, choices and the price dictionary\<close>

lemma para_cada_Inr:
  "para_cada f xs = Inr ys \<longleftrightarrow> list_all2 (\<lambda>x y. f x = Inr y) xs ys"
proof (induction xs arbitrary: ys)
  case Nil
  then show ?case by auto
next
  case (Cons x xs)
  show ?case
  proof (cases "f x")
    case (Inl e)
    then show ?thesis by (auto simp: list_all2_Cons1)
  next
    case (Inr y)
    then show ?thesis
      using Cons.IH by (cases "para_cada f xs") (auto simp: list_all2_Cons1)
  qed
qed

lemma para_cada_total:
  "(\<And>x. x \<in> set xs \<Longrightarrow> \<exists>y. f x = Inr y) \<Longrightarrow> \<exists>ys. para_cada f xs = Inr ys"
proof (induction xs)
  case Nil
  then show ?case by simp
next
  case (Cons x xs)
  then obtain y where y: "f x = Inr y" by (meson list.set_intros(1))
  from Cons obtain ys where "para_cada f xs = Inr ys" by (meson list.set_intros(2))
  with y show ?case by simp
qed

lemma para_cada_chave:
  assumes "para_cada f xs = Inr ys" and "\<And>x y. f x = Inr y \<Longrightarrow> g y = x"
  shows "map g ys = xs"
proof -
  from assms(1) have "list_all2 (\<lambda>x y. f x = Inr y) xs ys" by (simp add: para_cada_Inr)
  then show ?thesis
    by (induction rule: list_all2_induct) (auto dest: assms(2))
qed

lemma para_cada_elem:
  assumes "para_cada f xs = Inr ys" and "y \<in> set ys"
  shows "\<exists>x \<in> set xs. f x = Inr y"
proof -
  from assms(1) have "list_all2 (\<lambda>x y. f x = Inr y) xs ys" by (simp add: para_cada_Inr)
  then show ?thesis using assms(2)
    by (induction rule: list_all2_induct) auto
qed

lemma choice_Inr: "choice xs r = Inr x \<Longrightarrow> x \<in> set xs"
  by (auto simp: choice_def split: if_splits)

lemma choice_total: "xs \<noteq> [] \<Longrightarrow> \<exists>x. choice xs r = Inr x"
  by (simp add: choice_def)

lemma precos_fold_Some:
  "fold (\<lambda>p m. m(p_id_produto p \<mapsto> p_preco_venda_unitario p)) ps m k = Some v \<Longrightarrow>
     m k = Some v \<or> (\<exists>p \<in> set ps. p_id_produto p = k \<and> p_preco_venda_unitario p = v)"
  by (induction ps arbitrary: m) (fastforce split: if_splits)+

lemma precos_produtos_Some:
  "precos_produtos ps k = Some v \<Longrightarrow> \<exists>p \<in> set ps. p_id_produto p = k \<and> p_preco_venda_unitario p = v"
  using precos_fold_Some [of ps Map.empty k v] by (simp add: precos_produtos_def)

lemma precos_fold_dom:
  "dom (fold (\<lambda>p m. m(p_id_produto p \<mapsto> p_preco_venda_unitario p)) ps m) = dom m \<union> p_id_produto ` set ps"
  by (induction ps arbitrary: m) auto

lemma precos_produtos_dom: "dom (precos_produtos ps) = p_id_produto ` set ps"
  by (simp add: precos_produtos_def precos_fold_dom)

lemma gerar_produto_id: "gerar_produto fo fids i = Inr p \<Longrightarrow> p_id_produto p = i"
  by (auto simp: gerar_produto_def Let_def split: sum.splits)

lemma gerar_produto_fk: "gerar_produto fo fids i = Inr p \<Longrightarrow> p_id_fornecedor p \<in> set fids"
  by (auto simp: gerar_produto_def Let_def split: sum.splits dest: choice_Inr)

lemma gerar_cliente_id: "gerar_cliente fo i = Inr c \<Longrightarrow> c_id_cliente c = i"
  by (auto simp: gerar_cliente_def split: sum.splits)

lemma gerar_vendedor_id: "gerar_vendedor fo i = Inr c \<Longrightarrow> vd_id_vendedor c = i"
  by (auto simp: gerar_vendedor_def split: sum.splits)

lemma gerar_venda_id: "gerar_venda fo ps pids cids vids i = Inr s \<Longrightarrow> v_id_venda s = i"
  by (auto simp: gerar_venda_def Let_def split: sum.splits option.splits)

lemma gerar_venda_fk:
  "gerar_venda fo ps pids cids vids i = Inr s \<Longrightarrow>
     v_id_produto s \<in> set pids \<and> v_id_cliente s \<in> set cids \<and> v_id_vendedor s \<in> set vids"
  by (auto simp: gerar_venda_def Let_def split: sum.splits option.splits dest: choice_Inr)

lemma gerar_venda_valor:
  "gerar_venda fo ps pids cids vids i = Inr s \<Longrightarrow>
     precos_produtos ps (v_id_produto s) =
       Some (p_preco_venda_unitario p) \<Longrightarrow> 
     v_valor_total_venda s = round_py2 (p_preco_venda_unitario p * of_int (v_quantidade_vendida s))"
  by (auto simp: gerar_venda_def Let_def split: sum.splits option.splits)

lemma gerar_venda_preco:
  "gerar_venda fo ps pids cids vids i = Inr s \<Longrightarrow>
     \<exists>v. precos_produtos ps (v_id_produto s) = Some v \<and>
       v_valor_total_venda s = round_py2 (v * of_int (v_quantidade_vendida s))"
  by (auto simp: gerar_venda_def Let_def split: sum.splits option.splits)

lemma fornecedores_ids: "map f_id_fornecedor (fornecedores_data fo n) = [1..n]"
  by (simp add: fornecedores_data_def gerar_fornecedor_def comp_def)

lemma gerar_Inr:
  assumes "gerar nf np nc nv ns fo = Inr t"
  shows "fornecedores_df t = fornecedores_data fo nf"
    and "produtos_data fo (map f_id_fornecedor (fornecedores_df t)) np = Inr (produtos_df t)"
    and "clientes_data fo nc = Inr (clientes_df t)"
    and "vendedores_data fo nv = Inr (vendedores_df t)"
    and "vendas_data fo (produtos_df t) (clientes_df t) (vendedores_df t) ns = Inr (vendas_df t)"
  using assms by (auto simp: gerar_def Let_def split: sum.splits)

lemma gerar_ids:
  assumes "gerar nf np nc nv ns fo = Inr t"
  shows "map f_id_fornecedor (fornecedores_df t) = [1..nf]"
    and "map p_id_produto (produtos_df t) = [1..np]"
    and "map c_id_cliente (clientes_df t) = [1..nc]"
    and "map vd_id_vendedor (vendedores_df t) = [1..nv]"
    and "map v_id_venda (vendas_df t) = [1..ns]"
proof -
  note g = gerar_Inr [OF assms]
  show "map f_id_fornecedor (fornecedores_df t) = [1..nf]"
    by (simp add: g(1) fornecedores_ids)
  show "map p_id_produto (produtos_df t) = [1..np]"
    using g(2) unfolding produtos_data_def by (rule para_cada_chave) (rule gerar_produto_id)
  show "map c_id_cliente (clientes_df t) = [1..nc]"
    using g(3) unfolding clientes_data_def by (rule para_cada_chave) (rule gerar_cliente_id)
  show "map vd_id_vendedor (vendedores_df t) = [1..nv]"
    using g(4) unfolding vendedores_data_def by (rule para_cada_chave) (rule gerar_vendedor_id)
  show "map v_id_venda (vendas_df t) = [1..ns]"
    using g(5) unfolding vendas_data_def by (rule para_cada_chave) (rule gerar_venda_id)
qed

lemma gerar_total:
  assumes "0 < nf" "0 < np" "0 < nc" "0 < nv"
  shows "\<exists>t. gerar nf np nc nv ns fo = Inr t"
proof -
  have fne: "map f_id_fornecedor (fornecedores_data fo nf) \<noteq> []"
    using assms(1) by (simp add: fornecedores_ids)
  have "\<exists>p. gerar_produto fo (map f_id_fornecedor (fornecedores_data fo nf)) i = Inr p" for i
  proof -
    obtain a where a: "choice categorias_produto (random_below fo ''categoria_produto'' i) = Inr a"
      using choice_total [of categorias_produto] by (auto simp: categorias_produto_def)
    obtain b where b: "choice (map f_id_fornecedor (fornecedores_data fo nf))
        (random_below fo ''id_fornecedor'' i) = Inr b"
      using choice_total [OF fne] by blast
    show ?thesis by (simp add: gerar_produto_def Let_def a b)
  qed
  then obtain ps where ps: "produtos_data fo (map f_id_fornecedor (fornecedores_data fo nf)) np = Inr ps"
    unfolding produtos_data_def using para_cada_total by metis
  have "\<exists>c. gerar_cliente fo i = Inr c" for i
  proof -
    obtain a where a: "choice regioes_cliente (random_below fo ''regiao_cliente'' i) = Inr a"
      using choice_total [of regioes_cliente] by (auto simp: regioes_cliente_def)
    show ?thesis by (simp add: gerar_cliente_def a)
  qed
  then obtain cs where cs: "clientes_data fo nc = Inr cs"
    unfolding clientes_data_def using para_cada_total by metis
  have "\<exists>c. gerar_vendedor fo i = Inr c" for i
  proof -
    obtain a where a: "choice equipes_vendas (random_below fo ''equipe_vendas'' i) = Inr a"
      using choice_total [of equipes_vendas] by (auto simp: equipes_vendas_def)
    show ?thesis by (simp add: gerar_vendedor_def a)
  qed
  then obtain vs where vs: "vendedores_data fo nv = Inr vs"
    unfolding vendedores_data_def using para_cada_total by metis
  have pids: "map p_id_produto ps = [1..np]"
    using ps unfolding produtos_data_def by (rule para_cada_chave) (rule gerar_produto_id)
  have cids: "map c_id_cliente cs = [1..nc]"
    using cs unfolding clientes_data_def by (rule para_cada_chave) (rule gerar_cliente_id)
  have vids: "map vd_id_vendedor vs = [1..nv]"
    using vs unfolding vendedores_data_def by (rule para_cada_chave) (rule gerar_vendedor_id)
  have ne: "map p_id_produto ps \<noteq> []" "map c_id_cliente cs \<noteq> []" "map vd_id_vendedor vs \<noteq> []"
    using assms by (simp_all add: pids cids vids)
  have "\<exists>s. gerar_venda fo ps (map p_id_produto ps) (map c_id_cliente cs) (map vd_id_vendedor vs) i = Inr s" for i
  proof -
    obtain k where k: "choice (map p_id_produto ps) (random_below fo ''id_produto'' i) = Inr k"
      using choice_total [OF ne(1)] by blast
    then have "k \<in> p_id_produto ` set ps" using choice_Inr by fastforce
    then obtain v where v: "precos_produtos ps k = Some v"
      using precos_produtos_dom [of ps] by blast
    obtain c where c: "choice (map c_id_cliente cs) (random_below fo ''id_cliente'' i) = Inr c"
      using choice_total [OF ne(2)] by blast
    obtain d where d: "choice (map vd_id_vendedor vs) (random_below fo ''id_vendedor'' i) = Inr d"
      using choice_total [OF ne(3)] by blast
    obtain m where m: "choice metodos_pagamento (random_below fo ''metodo_pagamento'' i) = Inr m"
      using choice_total [of metodos_pagamento] by (auto simp: metodos_pagamento_def)
    show ?thesis by (simp add: gerar_venda_def Let_def k v c d m)
  qed
  then obtain ss where ss: "vendas_data fo ps cs vs ns = Inr ss"
    unfolding vendas_data_def using para_cada_total by metis
  show ?thesis by (simp add: gerar_def Let_def ps cs vs ss)
qed

lemma gerar_exemplo: "gerar 1 2 1 1 2 fonte_exemplo = Inr tabelas_exemplo"
  by code_simp

subsection \<open>Primary keys\<close>

text \<open>
  Claim C9. Whatever Faker and \<open>random\<close> return, the script as configured ends
  without an exception, and in each of its five tables the primary-key column is the
  list 1, 2, ..., N for the table's configured count N (10 suppliers, 50 products, 200
  customers, 20 sellers, 1000 sales): the keys are distinct and no table is empty.
\<close>

theorem generated_primary_keys:
  "\<exists>t. gerar_arquivos_csv_vendas fo = Inr t \<and>
     map f_id_fornecedor (fornecedores_df t) = [1..NUM_FORNECEDORES] \<and>
     map p_id_produto (produtos_df t) = [1..NUM_PRODUTOS] \<and>
     map c_id_cliente (clientes_df t) = [1..NUM_CLIENTES] \<and>
     map vd_id_vendedor (vendedores_df t) = [1..NUM_VENDEDORES] \<and>
     map v_id_venda (vendas_df t) = [1..NUM_VENDAS] \<and>
     distinct (map f_id_fornecedor (fornecedores_df t)) \<and>
     distinct (map p_id_produto (produtos_df t)) \<and>
     distinct (map c_id_cliente (clientes_df t)) \<and>
     distinct (map vd_id_vendedor (vendedores_df t)) \<and>
     distinct (map v_id_venda (vendas_df t)) \<and>
     length (fornecedores_df t) = 10 \<and> length (produtos_df t) = 50 \<and>
     length (clientes_df t) = 200 \<and> length (vendedores_df t) = 20 \<and>
     length (vendas_df t) = 1000"
proof -
  obtain t where t: "gerar NUM_FORNECEDORES NUM_PRODUTOS NUM_CLIENTES NUM_VENDEDORES NUM_VENDAS fo = Inr t"
    using gerar_total [of NUM_FORNECEDORES NUM_PRODUTOS NUM_CLIENTES NUM_VENDEDORES NUM_VENDAS fo]
    by (auto simp: NUM_FORNECEDORES_def NUM_PRODUTOS_def NUM_CLIENTES_def NUM_VENDEDORES_def)
  note ids = gerar_ids [OF t]
  have len: "length (fornecedores_df t) = 10" "length (produtos_df t) = 50"
    "length (clientes_df t) = 200" "length (vendedores_df t) = 20" "length (vendas_df t) = 1000"
    using arg_cong [OF ids(1), of length] arg_cong [OF ids(2), of length]
      arg_cong [OF ids(3), of length] arg_cong [OF ids(4), of length] arg_cong [OF ids(5), of length]
    by (simp_all add: NUM_FORNECEDORES_def NUM_PRODUTOS_def NUM_CLIENTES_def NUM_VENDEDORES_def NUM_VENDAS_def)
  show ?thesis
    using t ids len by (auto simp: gerar_arquivos_csv_vendas_def)
qed

subsection \<open>Foreign keys\<close>

text \<open>
  Claim C5. In the tables of a run that ends without an exception, for any counts, the
  product, customer and seller id of every sale is the id of a row of the products,
  customers and sellers table, and the supplier id of every product is the id of a row
  of the suppliers table.
\<close>

theorem generated_foreign_keys:
  assumes "gerar nf np nc nv ns fo = Inr t"
  shows "(\<forall>s \<in> set (vendas_df t).
            v_id_produto s \<in> p_id_produto ` set (produtos_df t) \<and>
            v_id_cliente s \<in> c_id_cliente ` set (clientes_df t) \<and>
            v_id_vendedor s \<in> vd_id_vendedor ` set (vendedores_df t)) \<and>
         (\<forall>p \<in> set (produtos_df t).
            p_id_fornecedor p \<in> f_id_fornecedor ` set (fornecedores_df t))"
proof -
  note g = gerar_Inr [OF assms]
  have "v_id_produto s \<in> p_id_produto ` set (produtos_df t) \<and>
        v_id_cliente s \<in> c_id_cliente ` set (clientes_df t) \<and>
        v_id_vendedor s \<in> vd_id_vendedor ` set (vendedores_df t)"
    if "s \<in> set (vendas_df t)" for s
    using para_cada_elem [OF g(5) [unfolded vendas_data_def] that] gerar_venda_fk by fastforce
  moreover have "p_id_fornecedor p \<in> f_id_fornecedor ` set (fornecedores_df t)"
    if "p \<in> set (produtos_df t)" for p
    using para_cada_elem [OF g(2) [unfolded produtos_data_def] that] gerar_produto_fk by fastforce
  ultimately show ?thesis by blast
qed

theorem generated_foreign_keys_witness:
  "gerar 1 2 1 1 2 fonte_exemplo = Inr tabelas_exemplo \<and>
   map v_id_produto (vendas_df tabelas_exemplo) = [2, 1] \<and>
   v_id_produto (hd (vendas_df tabelas_exemplo)) \<in> p_id_produto ` set (produtos_df tabelas_exemplo) \<and>
   p_id_fornecedor (hd (produtos_df tabelas_exemplo)) \<in> f_id_fornecedor ` set (fornecedores_df tabelas_exemplo)"
  using generated_foreign_keys [OF gerar_exemplo]
  by (simp add: gerar_exemplo) (simp add: tabelas_exemplo_def)

subsection \<open>The total value of a sale\<close>

text \<open>
  Claim C4. In the tables of a run that ends without an exception, every sale refers
  to a product of the products table, and its stored total value is the unit sale price
  of that product times the quantity sold, rounded to 2 decimal places.
\<close>

theorem generated_total_value:
  assumes "gerar nf np nc nv ns fo = Inr t" and "s \<in> set (vendas_df t)"
  shows "(\<exists>p \<in> set (produtos_df t). p_id_produto p = v_id_produto s) \<and>
         (\<forall>p \<in> set (produtos_df t). p_id_produto p = v_id_produto s \<longrightarrow>
            v_valor_total_venda s =
              round_py2 (p_preco_venda_unitario p * of_int (v_quantidade_vendida s)))"
proof -
  note g = gerar_Inr [OF assms(1)]
  obtain i where i: "gerar_venda fo (produtos_df t) (map p_id_produto (produtos_df t))
      (map c_id_cliente (clientes_df t)) (map vd_id_vendedor (vendedores_df t)) i = Inr s"
    using para_cada_elem [OF g(5) [unfolded vendas_data_def] assms(2)] by blast
  obtain v where v: "precos_produtos (produtos_df t) (v_id_produto s) = Some v"
    and tot: "v_valor_total_venda s = round_py2 (v * of_int (v_quantidade_vendida s))"
    using gerar_venda_preco [OF i] by blast
  obtain q where q: "q \<in> set (produtos_df t)" "p_id_produto q = v_id_produto s"
    "p_preco_venda_unitario q = v"
    using precos_produtos_Some [OF v] by blast
  have dist: "distinct (map p_id_produto (produtos_df t))"
    by (simp add: gerar_ids(2) [OF assms(1)])
  have inj: "inj_on p_id_produto (set (produtos_df t))"
    using dist by (simp add: distinct_map)
  have "p = q" if "p \<in> set (produtos_df t)" "p_id_produto p = v_id_produto s" for p
    using inj_onD [OF inj, of p q] that q by simp
  then show ?thesis using q tot by blast
qed

theorem generated_total_value_witness:
  "gerar 1 2 1 1 2 fonte_exemplo = Inr tabelas_exemplo \<and>
   hd (vendas_df tabelas_exemplo) \<in> set (vendas_df tabelas_exemplo) \<and>
   last (produtos_df tabelas_exemplo) \<in> set (produtos_df tabelas_exemplo) \<and>
   p_id_produto (last (produtos_df tabelas_exemplo)) = v_id_produto (hd (vendas_df tabelas_exemplo)) \<and>
   v_valor_total_venda (hd (vendas_df tabelas_exemplo)) =
     round_py2 (p_preco_venda_unitario (last (produtos_df tabelas_exemplo)) *
                of_int (v_quantidade_vendida (hd (vendas_df tabelas_exemplo)))) \<and>
   v_valor_total_venda (hd (vendas_df tabelas_exemplo)) = 93424 / 100"
proof -
  have s: "hd (vendas_df tabelas_exemplo) \<in> set (vendas_df tabelas_exemplo)"
    by (simp add: tabelas_exemplo_def)
  have p: "last (produtos_df tabelas_exemplo) \<in> set (produtos_df tabelas_exemplo)"
    by (simp add: tabelas_exemplo_def)
  have k: "p_id_produto (last (produtos_df tabelas_exemplo)) = v_id_produto (hd (vendas_df tabelas_exemplo))"
    by (simp add: tabelas_exemplo_def)
  have v: "v_valor_total_venda (hd (vendas_df tabelas_exemplo)) = 93424 / 100"
    by (simp add: tabelas_exemplo_def)
  from generated_total_value [OF gerar_exemplo s] p k
  have "v_valor_total_venda (hd (vendas_df tabelas_exemplo)) =
     round_py2 (p_preco_venda_unitario (last (produtos_df tabelas_exemplo)) *
                of_int (v_quantidade_vendida (hd (vendas_df tabelas_exemplo))))"
    by blast
  with s p k v gerar_exemplo show ?thesis by blast
qed

section \<open>Properties of the transformation\<close>

subsection \<open>The left joins\<close>

lemma find_notin: "x \<notin> k ` set rs \<Longrightarrow> find (\<lambda>r. k r = x) rs = None"
  by (induction rs) auto

lemma filter_notin: "x \<notin> k ` set rs \<Longrightarrow> filter (\<lambda>r. k r = x) rs = []"
  by (induction rs) auto

lemma filter_distinct_key:
  "distinct (map k rs) \<Longrightarrow>
     filter (\<lambda>r. k r = x) rs = (case find (\<lambda>r. k r = x) rs of None \<Rightarrow> [] | Some r \<Rightarrow> [r])"
  by (induction rs) (auto simp: find_notin filter_notin)

lemma merge_left_distinct:
  assumes "distinct (map kr rs)"
  shows "merge_left kl kr ls rs = map (\<lambda>l. (l, find (\<lambda>r. kr r = kl l) rs)) ls"
proof -
  have "(case filter (\<lambda>r. kr r = kl l) rs of [] \<Rightarrow> [(l, None)] | ms \<Rightarrow> map (\<lambda>r. (l, Some r)) ms)
          = [(l, find (\<lambda>r. kr r = kl l) rs)]" for l
    by (simp add: filter_distinct_key [OF assms] split: option.splits)
  then show ?thesis
    by (simp add: merge_left_def)
qed

lemma df_merged_distinct:
  assumes "distinct (map p_id_produto ps)" "distinct (map c_id_cliente cs)"
    "distinct (map vd_id_vendedor vds)"
  shows "df_merged ps cs vds vs =
     map (\<lambda>v. derivar (((v, find (\<lambda>p. p_id_produto p = v_id_produto v) ps),
                              find (\<lambda>c. c_id_cliente c = v_id_cliente v) cs),
                              find (\<lambda>d. vd_id_vendedor d = v_id_vendedor v) vds)) vs"
  by (simp add: df_merged_def Let_def merge_left_distinct assms comp_def)

lemma transformar_cases:
  "transformar arq =
     (case (produtos_csv arq, clientes_csv arq, vendedores_csv arq, vendas_csv arq) of
        (Some ps, Some cs, Some vds, Some vs) \<Rightarrow> Some (df_merged ps cs vds vs)
      | _ \<Rightarrow> None)"
  by (simp add: transformar_def load_data_def split: option.splits)

lemma eval_transform_ex:
  "fornecedores_csv arquivos_ex = None"
  "load_data arquivos_ex =
     (Some [produto_ex], Some [cliente_ex], Some vendedores_ex, Some [venda_ex 1 1 1 1 1 10])"
  by (simp_all add: load_data_def arquivos_ex_def)

lemma eval_duplicate_key:
  "length (df_merged [produto_ex, produto_ex\<lparr>p_nome_produto := ''Lapis''\<rparr>] [cliente_ex] vendedores_ex
     [venda_ex 1 1 1 1 1 10]) = 2"
  by code_simp

lemma eval_distinct_ex:
  "distinct (map p_id_produto [produto_ex])" "distinct (map c_id_cliente [cliente_ex])"
  "distinct (map vd_id_vendedor vendedores_ex)"
  by code_simp+

lemma eval_sem_produto:
  "last df_sem_produto \<in> set df_sem_produto"
  "v_id_produto (l_venda (last df_sem_produto)) \<notin> p_id_produto ` set [produto_ex]"
  by code_simp+

text \<open>
  Claim C1, as the code has it. \<open>load_data\<close> reads four tables (products, customers,
  sellers, sales) and never the suppliers file: its result does not change with that
  file, and it holds the four tables exactly when the four files are there. When the
  keys of the product, customer and seller tables are distinct, the three left joins
  give exactly one row per sale, in the order of the sales, each with the parent rows
  of its keys; a sale whose key has no parent row stays, with null columns (for a
  missing product: null name and category, NaN profit).
\<close>

theorem transform_left_join:
  assumes "distinct (map p_id_produto ps)" and "distinct (map c_id_cliente cs)"
    and "distinct (map vd_id_vendedor vds)"
  shows "load_data (arq\<lparr>fornecedores_csv := x\<rparr>) = load_data arq \<and>
     (load_data arq = (Some ps, Some cs, Some vds, Some vs) \<longleftrightarrow>
        produtos_csv arq = Some ps \<and> clientes_csv arq = Some cs \<and>
        vendedores_csv arq = Some vds \<and> vendas_csv arq = Some vs) \<and>
     map l_venda (df_merged ps cs vds vs) = vs \<and>
     (\<forall>l \<in> set (df_merged ps cs vds vs).
        l_produto l = find (\<lambda>p. p_id_produto p = v_id_produto (l_venda l)) ps \<and>
        l_cliente l = find (\<lambda>c. c_id_cliente c = v_id_cliente (l_venda l)) cs \<and>
        l_vendedor l = find (\<lambda>d. vd_id_vendedor d = v_id_vendedor (l_venda l)) vds \<and>
        (v_id_produto (l_venda l) \<notin> p_id_produto ` set ps \<longrightarrow>
           nome_produto l = None \<and> categoria_produto l = None \<and> lucro_venda l = NaN))"
proof -
  have a: "load_data (arq\<lparr>fornecedores_csv := x\<rparr>) = load_data arq"
    by (simp add: load_data_def split: option.splits)
  have b: "load_data arq = (Some ps, Some cs, Some vds, Some vs) \<longleftrightarrow>
        produtos_csv arq = Some ps \<and> clientes_csv arq = Some cs \<and>
        vendedores_csv arq = Some vds \<and> vendas_csv arq = Some vs"
    by (auto simp: load_data_def split: option.splits)
  note m = df_merged_distinct [OF assms]
  have c: "map l_venda (df_merged ps cs vds vs) = vs"
    by (simp add: m derivar_def comp_def)
  have d: "l_produto l = find (\<lambda>p. p_id_produto p = v_id_produto (l_venda l)) ps \<and>
        l_cliente l = find (\<lambda>c. c_id_cliente c = v_id_cliente (l_venda l)) cs \<and>
        l_vendedor l = find (\<lambda>d. vd_id_vendedor d = v_id_vendedor (l_venda l)) vds \<and>
        (v_id_produto (l_venda l) \<notin> p_id_produto ` set ps \<longrightarrow>
           nome_produto l = None \<and> categoria_produto l = None \<and> lucro_venda l = NaN)"
    if "l \<in> set (df_merged ps cs vds vs)" for l
  proof -
    from that obtain v where l: "l = derivar (((v, find (\<lambda>p. p_id_produto p = v_id_produto v) ps),
                              find (\<lambda>c. c_id_cliente c = v_id_cliente v) cs),
                              find (\<lambda>d. vd_id_vendedor d = v_id_vendedor v) vds)"
      unfolding m by auto
    have n: "find (\<lambda>p. p_id_produto p = v_id_produto v) ps = None"
      if "v_id_produto v \<notin> p_id_produto ` set ps"
      using that by (rule find_notin)
    show ?thesis
      by (auto simp: l derivar_def nome_produto_def categoria_produto_def n
          calc_lucro_venda_def col_preco_venda_unitario_def col_preco_custo_def flt_sub_def)
  qed
  from a b c d show ?thesis by blast
qed

theorem transform_left_join_witness:
  "distinct (map p_id_produto [produto_ex]) \<and> distinct (map c_id_cliente [cliente_ex]) \<and>
   distinct (map vd_id_vendedor vendedores_ex) \<and>
   map l_venda df_sem_produto = [venda_ex 1 1 1 1 1 10, venda_ex 2 99 2 2 1 10] \<and>
   last df_sem_produto \<in> set df_sem_produto \<and>
   v_id_produto (l_venda (last df_sem_produto)) \<notin> p_id_produto ` set [produto_ex] \<and>
   nome_produto (last df_sem_produto) = None \<and> lucro_venda (last df_sem_produto) = NaN"
proof -
  note t = transform_left_join [OF eval_distinct_ex, where arq = arquivos_ex and x = None
      and vs = "[venda_ex 1 1 1 1 1 10, venda_ex 2 99 2 2 1 10]", folded df_sem_produto_def]
  from t have 1: "map l_venda df_sem_produto = [venda_ex 1 1 1 1 1 10, venda_ex 2 99 2 2 1 10]"
    by blast
  from t eval_sem_produto
  have 2: "nome_produto (last df_sem_produto) = None \<and> lucro_venda (last df_sem_produto) = NaN"
    by blast
  from 1 2 eval_distinct_ex eval_sem_produto show ?thesis by blast
qed

text \<open>
  The claim as stated fails twice: the tables load although fornecedores.csv is
  absent, so the suppliers table is not among those loaded; and a products table with
  two rows of id 1 gives two joined rows for one sale.
\<close>

theorem transform_counterexample:
  "fornecedores_csv arquivos_ex = None \<and>
   load_data arquivos_ex =
     (Some [produto_ex], Some [cliente_ex], Some vendedores_ex, Some [venda_ex 1 1 1 1 1 10]) \<and>
   length [venda_ex 1 1 1 1 1 10] = 1 \<and>
   length (df_merged [produto_ex, produto_ex\<lparr>p_nome_produto := ''Lapis''\<rparr>] [cliente_ex] vendedores_ex
     [venda_ex 1 1 1 1 1 10]) = 2"
  using eval_transform_ex eval_duplicate_key by simp

subsection \<open>The margin\<close>

lemma calc_margem_Fin:
  "calc_margem (Fin a) t =
     (if t = 0 then (if a = 0 then Fin 0 else if 0 < a then PInf else NInf)
      else Fin (a / t * 100))"
  by (simp add: calc_margem_def flt_sinal_def)

lemma calc_margem_NaN: "calc_margem NaN t = Fin 0"
  by (simp add: calc_margem_def)

lemma margem_linha:
  "l \<in> set (df_merged ps cs vds vs) \<Longrightarrow>
     margem_lucro_percentual l = calc_margem (lucro_venda l) (valor_total_venda l)"
  by (auto simp: df_merged_def Let_def derivar_def valor_total_venda_def)

text \<open>
  Claim C2, at an input where the code departs from it. One sale of quantity 1 and
  total value 0 of a product of cost 5 and unit price 10: the profit is 5, the quotient
  5 / 0 is positive infinity, which \<open>fillna(0)\<close> leaves, so the margin is infinity and
  not 0.
\<close>

theorem margin_zero_total:
  "map valor_total_venda df_valor_zero = [0] \<and> map lucro_venda df_valor_zero = [Fin 5] \<and>
   map margem_lucro_percentual df_valor_zero = [PInf]"
  by code_simp

section \<open>Properties of the filter\<close>

lemma df_filtered_Inr:
  assumes "df_filtered e df = Inr out"
  shows "\<exists>P. out = filter P df"
proof (cases "df = []")
  case True
  with assms show ?thesis by (auto simp: df_filtered_def)
next
  case False
  with assms show ?thesis
    by (auto simp: df_filtered_def split: sum.splits)
qed

lemma fst_mono_lex: "(a :: 'a::order \<times> 'b::order) \<le> b \<Longrightarrow> fst a \<le> fst b"
  by (auto simp: less_eq_prod_def)

lemma min_date_le: "l \<in> set df \<Longrightarrow> min_date df \<le> fst (data_venda l)"
  unfolding min_date_def by (rule fst_mono_lex) simp

lemma max_date_ge: "l \<in> set df \<Longrightarrow> fst (data_venda l) \<le> max_date df"
  unfolding max_date_def by (rule fst_mono_lex) simp

lemma length_somes_le:
  "length (concat (map (\<lambda>x. case x of None \<Rightarrow> [] | Some s \<Rightarrow> [s]) xs)) \<le> length xs"
  by (induction xs) (auto split: option.splits)

lemma somes_all:
  "length (concat (map (\<lambda>x. case x of None \<Rightarrow> [] | Some s \<Rightarrow> [s]) xs)) = length xs \<Longrightarrow>
     map Some (concat (map (\<lambda>x. case x of None \<Rightarrow> [] | Some s \<Rightarrow> [s]) xs)) = xs"
proof (induction xs)
  case Nil
  then show ?case by simp
next
  case (Cons x xs)
  show ?case
  proof (cases x)
    case None
    with Cons.prems length_somes_le [of xs] show ?thesis by simp
  next
    case (Some s)
    with Cons show ?thesis by simp
  qed
qed

lemma sorted_py_set: "sorted_py xs = Inr ys \<Longrightarrow> set ys = set xs"
proof -
  assume a: "sorted_py xs = Inr ys"
  let ?ss = "concat (map (\<lambda>x. case x of None \<Rightarrow> [] | Some s \<Rightarrow> [s]) xs)"
  show ?thesis
  proof (cases "?ss = []")
    case True
    with a show ?thesis by (simp add: sorted_py_def)
  next
    case False
    with a have len: "length ?ss = length xs" and ys: "ys = map Some (sort ?ss)"
      by (auto simp: sorted_py_def Let_def split: if_splits)
    have "set ys = set (map Some ?ss)" by (simp add: ys)
    also have "\<dots> = set xs" using somes_all [OF len] by simp
    finally show ?thesis .
  qed
qed

lemma opcoes_set: "opcoes col df = Inr ys \<Longrightarrow> set ys = col ` set df"
  using sorted_py_set [of "unique (map col df)" ys] by (simp add: opcoes_def unique_def)

lemma df_filtered_select_all:
  assumes ok: "df_filtered e df = Inr out"
    and per: "date_value_from_input e = Tupla [min_date df, max_date df]" "data_unica e = min_date df"
    and sel: "Some ''Todos'' \<in> set (escolha_produtos e)" "Some ''Todas'' \<in> set (escolha_categorias e)"
      "Some ''Todos'' \<in> set (escolha_clientes e)" "Some ''Todas'' \<in> set (escolha_regioes e)"
      "Some ''Todos'' \<in> set (escolha_vendedores e)"
  shows "out = df"
proof (cases "df = []")
  case True
  with ok show ?thesis by (simp add: df_filtered_def)
next
  case False
  from ok False obtain ap ac acl ar av where
    o: "opcoes nome_produto df = Inr ap" "opcoes categoria_produto df = Inr ac"
      "opcoes nome_cliente df = Inr acl" "opcoes regiao_cliente df = Inr ar"
      "opcoes nome_vendedor df = Inr av"
    and out: "out = filter (mascara (periodo e df)
                    (selecionados ''Todos'' ap (escolha_produtos e))
                    (selecionados ''Todas'' ac (escolha_categorias e))
                    (selecionados ''Todos'' acl (escolha_clientes e))
                    (selecionados ''Todas'' ar (escolha_regioes e))
                    (selecionados ''Todos'' av (escolha_vendedores e))) df"
    by (auto simp: df_filtered_def split: sum.splits)
  obtain l0 where l0: "l0 \<in> set df" using False by (cases df) auto
  have le: "min_date df \<le> max_date df"
    using min_date_le [OF l0] max_date_ge [OF l0] by (rule order_trans)
  have p: "periodo e df = (min_date df, max_date df)"
    using le per by (auto simp: periodo_def)
  have "mascara (periodo e df)
                    (selecionados ''Todos'' ap (escolha_produtos e))
                    (selecionados ''Todas'' ac (escolha_categorias e))
                    (selecionados ''Todos'' acl (escolha_clientes e))
                    (selecionados ''Todas'' ar (escolha_regioes e))
                    (selecionados ''Todos'' av (escolha_vendedores e)) l"
    if "l \<in> set df" for l
    using that min_date_le [OF that] max_date_ge [OF that] sel
    by (simp add: mascara_def p selecionados_def o [THEN opcoes_set])
  then show ?thesis by (simp add: out)
qed

lemma sorted_py_total:
  assumes "None \<notin> set xs"
  shows "\<exists>ys. sorted_py xs = Inr ys"
proof -
  have "length (concat (map (\<lambda>x. case x of None \<Rightarrow> [] | Some s \<Rightarrow> [s]) xs)) = length xs"
    using assms
  proof (induction xs)
    case Nil
    then show ?case by simp
  next
    case (Cons a xs)
    then show ?case by (cases a) auto
  qed
  then show ?thesis by (simp add: sorted_py_def Let_def)
qed

lemma opcoes_total: "None \<notin> col ` set df \<Longrightarrow> \<exists>ys. opcoes col df = Inr ys"
  unfolding opcoes_def by (rule sorted_py_total) (simp add: unique_def)

lemma df_filtered_total:
  assumes "None \<notin> nome_produto ` set df" "None \<notin> categoria_produto ` set df"
    "None \<notin> nome_cliente ` set df" "None \<notin> regiao_cliente ` set df"
    "None \<notin> nome_vendedor ` set df"
  shows "\<exists>out. df_filtered e df = Inr out"
proof -
  from assms [THEN opcoes_total] obtain ap ac acl ar av where
    "opcoes nome_produto df = Inr ap" "opcoes categoria_produto df = Inr ac"
      "opcoes nome_cliente df = Inr acl" "opcoes regiao_cliente df = Inr ar"
      "opcoes nome_vendedor df = Inr av" by blast
  then show ?thesis by (simp add: df_filtered_def)
qed

lemma eval_filter_ana: "df_filtered entrada_ana df_exemplo = Inr [df_exemplo ! 1]"
  by code_simp

text \<open>
  Claim C3, at an input where the code departs from it. Two sales, the second of a
  product id that is not in the products table: its product name is null, the list of
  product names holds a string and NaN, \<open>sorted\<close> raises TypeError and no filtered set is
  produced, with the sentinel in every multiselect and the whole period selected.
  (Lemma \<open>df_filtered_select_all\<close> above is the claim wherever the script gets as far as
  the mask; lemma \<open>df_filtered_total\<close> says it does when no name column has a null cell.)
\<close>

theorem filter_select_all_unmatched:
  "map nome_produto df_sem_produto = [Some ''Caneta'', None] \<and>
   df_filtered (entrada_todos df_sem_produto) df_sem_produto = Inl TypeError"
  by code_simp

text \<open>
  Claim C8. When the filter produces a set, that set is a subsequence of
  \<open>df_merged\<close>: its rows are rows of the input, unchanged and in the input's order, and
  no row occurs more often in the output than in the input.
\<close>

theorem filter_pure_selection:
  assumes "df_filtered e df = Inr out"
  shows "subseq out df \<and> set out \<subseteq> set df \<and> (\<forall>l. count (mset out) l \<le> count (mset df) l)"
proof -
  obtain P where P: "out = filter P df" using df_filtered_Inr [OF assms] by blast
  have "mset out \<subseteq># mset df" by (simp add: P)
  then have "count (mset out) l \<le> count (mset df) l" for l
    by (simp add: mset_subset_eq_count)
  then show ?thesis by (auto simp: P)
qed

theorem filter_pure_selection_witness:
  "df_filtered entrada_ana df_exemplo = Inr [df_exemplo ! 1] \<and>
   subseq [df_exemplo ! 1] df_exemplo \<and> set [df_exemplo ! 1] \<subseteq> set df_exemplo \<and>
   count (mset [df_exemplo ! 1]) (df_exemplo ! 1) \<le> count (mset df_exemplo) (df_exemplo ! 1)"
  using filter_pure_selection [OF eval_filter_ana] eval_filter_ana by blast

section \<open>Properties of the aggregates\<close>

subsection \<open>The indicators\<close>

lemma kpis_empty:
  "kpis [] = \<lparr> total_vendas_valor = 0, total_lucro_valor = Fin 0, num_transacoes = 0, ticket_medio = 0 \<rparr>"
  by (simp add: kpis_def soma_flt_def)







subsection \<open>Sums of an int64 column\<close>

lemma int64_wraps:
  "int_of_int64 (int64_of_int (2 ^ 62) + int64_of_int (2 ^ 62)) = - (2 ^ 63)"
  by transfer simp

lemma int_of_int64_plus:
  "int_of_int64 (a + b) = (int_of_int64 a + int_of_int64 b + 2 ^ 63) mod 2 ^ 64 - 2 ^ 63"
  by transfer (simp add: sint_word_ariths signed_take_bit_eq_take_bit_shift take_bit_eq_mod)

lemma int_of_int64_of_int:
  "- (2 ^ 63) \<le> i \<Longrightarrow> i < 2 ^ 63 \<Longrightarrow> int_of_int64 (int64_of_int i) = i"
  by transfer (simp add: signed_take_bit_int_eq_self sint_sbintrunc')

lemma int_of_int64_zero: "int_of_int64 0 = 0"
  by transfer simp

lemma int_of_int64_sum_list:
  "int_of_int64 (sum_list xs) = (sum_list (map int_of_int64 xs) + 2 ^ 63) mod 2 ^ 64 - 2 ^ 63"
proof (induction xs)
  case Nil
  then show ?case by (simp add: int_of_int64_zero)
next
  case (Cons x xs)
  have "int_of_int64 (x + sum_list xs) =
      (int_of_int64 x + ((sum_list (map int_of_int64 xs) + 2 ^ 63) mod 2 ^ 64 - 2 ^ 63) + 2 ^ 63) mod 2 ^ 64 - 2 ^ 63"
    by (simp add: int_of_int64_plus Cons.IH)
  also have "\<dots> = (int_of_int64 x + sum_list (map int_of_int64 xs) + 2 ^ 63) mod 2 ^ 64 - 2 ^ 63"
    by (simp add: algebra_simps mod_simps)
  finally show ?case by simp
qed

subsection \<open>The Top-N rankings\<close>

lemma length_inserir_desc: "length (inserir_desc x ys) = Suc (length ys)"
  by (induction ys) auto

lemma length_foldl_inserir:
  "length (foldl (\<lambda>acc x. inserir_desc x acc) acc xs) = length acc + length xs"
  by (induction xs arbitrary: acc) (auto simp: length_inserir_desc)

lemma length_ordenar_desc: "length (ordenar_desc xs) = length xs"
  by (simp add: ordenar_desc_def length_foldl_inserir)






lemma length_sort_values_desc: "length (sort_values_desc f xs) = length xs"
  by (simp add: sort_values_desc_def length_ordenar_desc)



lemma set_chaves: "set (chaves col df) = {k. Some k \<in> col ` set df}"
proof -
  have "set (concat (map (\<lambda>l. case col l of None \<Rightarrow> [] | Some k \<Rightarrow> [k]) df)) = {k. Some k \<in> col ` set df}"
    by (force split: option.splits)
  then show ?thesis by (simp add: chaves_def)
qed

lemma distinct_chaves: "distinct (chaves col df)"
  by (simp add: chaves_def)

lemma length_chaves: "length (chaves col df) = card {k. Some k \<in> col ` set df}"
  using distinct_card [OF distinct_chaves, of col df] by (simp add: set_chaves)

lemma length_nlargest: "length (nlargest f n s) = min n (length s)"
  by (simp add: nlargest_def length_sort_values_desc length_ordenar_desc min.commute)

text \<open>
  Claim C10. For every set of rows, every n (those from 3 to 20 among them) and every
  order the unstable sort may choose among equal sums, the Top-N has exactly
  min(n, number of groups) entries, a group being a distinct non-null cell of the
  dimension's column.
\<close>

theorem top_n_length:
  "length (top_n instavel col metric n df) = min n (card {k. Some k \<in> col ` set df})"
  by (simp add: top_n_def length_nlargest groupby_sum_def length_chaves)
















lemma top_n_stable_path:
  "n < card {k. Some k \<in> col ` set df} \<Longrightarrow>
     top_n f col metric n df = top_n g col metric n df"
  by (simp add: top_n_def nlargest_def groupby_sum_def length_chaves)

text \<open>
  The parameter of \<open>sort_values_desc\<close> reaches every outcome of an unstable sort: any
  arrangement of the series in descending order of the value is the result for some
  choice of the parameter.
\<close>

lemma inserir_desc_last:
  "\<forall>y \<in> set ys. snd x \<le> snd y \<Longrightarrow> inserir_desc x ys = ys @ [x]"
  by (induction ys) auto

lemma foldl_inserir_id:
  "sorted_wrt (\<lambda>a b. snd b \<le> snd a) (acc @ xs) \<Longrightarrow>
     foldl (\<lambda>acc x. inserir_desc x acc) acc xs = acc @ xs"
proof (induction xs arbitrary: acc)
  case Nil
  then show ?case by simp
next
  case (Cons x xs)
  have "inserir_desc x acc = acc @ [x]"
    using Cons.prems by (intro inserir_desc_last) (auto simp: sorted_wrt_append)
  moreover have "sorted_wrt (\<lambda>a b. snd b \<le> snd a) ((acc @ [x]) @ xs)"
    using Cons.prems by simp
  ultimately show ?case using Cons.IH [of "acc @ [x]"] by simp
qed

lemma ordenar_desc_id:
  "sorted_wrt (\<lambda>a b. snd b \<le> snd a) xs \<Longrightarrow> ordenar_desc xs = xs"
  using foldl_inserir_id [of "[]" xs] by (simp add: ordenar_desc_def)

lemma posicoes:
  "distinct r \<Longrightarrow> \<exists>f :: 'a \<Rightarrow> nat. inj_on f (set r) \<and> sorted (map f r)"
proof (induction r)
  case Nil
  then show ?case by simp
next
  case (Cons x r)
  then obtain f :: "'a \<Rightarrow> nat" where f: "inj_on f (set r)" "sorted (map f r)" by auto
  let ?g = "\<lambda>y. if y = x then 0 else Suc (f y)"
  have m: "map ?g r = map (\<lambda>y. Suc (f y)) r"
    using Cons.prems by (intro map_cong) auto
  have "sorted (map (\<lambda>y. Suc (f y)) r)"
    using f(2) by (simp add: sorted_wrt_map sorted_map)
  then have "sorted (0 # map (\<lambda>y. Suc (f y)) r)" by simp
  moreover have "map ?g (x # r) = 0 # map (\<lambda>y. Suc (f y)) r"
    unfolding list.map m by simp
  ultimately have s: "sorted (map ?g (x # r))" by (simp only:)
  have "inj_on ?g (set (x # r))"
    using f(1) by (auto simp: inj_on_def)
  with s show ?case by blast
qed

lemma filter_inj_key:
  "distinct xs \<Longrightarrow> k \<in> set xs \<Longrightarrow> inj_on f (set xs) \<Longrightarrow> filter (\<lambda>x. f k = f x) xs = [k]"
proof (induction xs)
  case Nil
  then show ?case by simp
next
  case (Cons a xs)
  show ?case
  proof (cases "a = k")
    case True
    have "filter (\<lambda>x. f k = f x) xs = []"
      using Cons.prems True by (auto simp: filter_empty_conv inj_on_def)
    with True show ?thesis by simp
  next
    case False
    then have k: "k \<in> set xs" using Cons.prems by simp
    have "f k \<noteq> f a" using Cons.prems False by (auto simp: inj_on_def)
    moreover have "filter (\<lambda>x. f k = f x) xs = [k]"
      using Cons k by (simp add: inj_on_def)
    ultimately show ?thesis by simp
  qed
qed

lemma sort_values_desc_any:
  assumes "mset r = mset s" and "sorted_wrt (\<lambda>a b. snd b \<le> snd a) r" and "distinct s"
  shows "\<exists>f. sort_values_desc f s = r"
proof -
  have dr: "distinct r" using mset_eq_imp_distinct_iff [OF assms(1)] assms(3) by blast
  have st: "set r = set s" using assms(1) by (rule mset_eq_setD)
  obtain f :: "'a \<times> 'b \<Rightarrow> nat" where f: "inj_on f (set r)" "sorted (map f r)"
    using posicoes [OF dr] by blast
  have "sort_key f s = r"
  proof (rule properties_for_sort_key)
    show "mset r = mset s" by (rule assms(1))
    show "sorted (map f r)" by (rule f(2))
    fix k assume k: "k \<in> set r"
    have "filter (\<lambda>x. f k = f x) r = [k]"
      using dr k f(1) by (rule filter_inj_key)
    moreover have "filter (\<lambda>x. f k = f x) s = [k]"
      using assms(3) k f(1) unfolding st by (intro filter_inj_key) auto
    ultimately show "filter (\<lambda>x. f k = f x) r = filter (\<lambda>x. f k = f x) s" by simp
  qed
  then have "sort_values_desc f s = r"
    by (simp add: sort_values_desc_def ordenar_desc_id [OF assms(2)])
  then show ?thesis by blast
qed


lemma eval_top_unstable:
  "top_n zed_primeiro nome_vendedor valor_total_venda 5 df_exemplo =
     [(''Cid'', 30), (''Bob'', 20), (''Zed'', 10), (''Ana'', 10)]"
  "top_n ordem_da_serie nome_vendedor valor_total_venda 5 df_exemplo =
     [(''Cid'', 30), (''Bob'', 20), (''Ana'', 10), (''Zed'', 10)]"
  by code_simp+


lemma eval_top_quantidade:
  "map (\<lambda>e. (fst e, int_of_int64 (snd e)))
     (top_n ordem_da_serie nome_produto quantidade_vendida 3 df_ranking) = [(''Caneta'', 9)]"
  by code_simp




end
